theory Spec2Isabelle
  imports Main "HOL-Library.AList" "HOL-Library.Sublist"
begin

section \<open>The swagger generator of WentFramework\<close>

text \<open>
  A shallow embedding of package \<open>swagger\<close> (the OpenAPI generator): the document
  types, the schema derivation from \<open>reflect\<close> types, the route extraction from the
  router, the operation builder and the assembly in \<open>GenerateSwagger\<close>.

  Go strings are byte strings (\<open>string\<close>), a Go map is an association list that
  is read with \<open>map_of\<close> and written with \<open>AList.update\<close> (an assignment \<open>m[k] = v\<close>
  replaces the value of a key that is present, appends the key otherwise), a nil
  pointer or nil interface is \<open>None\<close>, a nil slice or nil map is \<open>[]\<close>, and a panic
  or a returned error is the left summand of the result.
\<close>

subsection \<open>Package \<open>strings\<close>\<close>

text \<open>\<open>strings.Contains(s, substr)\<close>: \<open>substr\<close> occurs in \<open>s\<close> as a contiguous block.\<close>

fun Contains :: "string \<Rightarrow> string \<Rightarrow> bool" where
  "Contains [] substr = (substr = [])"
| "Contains (c # s) substr = (prefix substr (c # s) \<or> Contains s substr)"

text \<open>\<open>strings.TrimPrefix(s, prefix)\<close>.\<close>

definition TrimPrefix :: "string \<Rightarrow> string \<Rightarrow> string" where
  "TrimPrefix s p = (if prefix p s then drop (length p) s else s)"

text \<open>
  \<open>strings.ToLower(s)\<close>. For a string of ASCII bytes only (every byte below
  \<open>utf8.RuneSelf\<close>, that is with the top bit clear) the library adds \<open>'a' - 'A'\<close> to
  each of the bytes \<open>'A'\<close> to \<open>'Z'\<close> and keeps the others. For a string with another
  byte it returns \<open>Map(unicode.ToLower, s)\<close>, which reads the case tables of package
  \<open>unicode\<close>; that function is the parameter \<open>Map_ToLower\<close> of \<open>ToLower\<close> and of every
  function that calls it.
\<close>

definition lower_byte :: "char \<Rightarrow> char" where
  "lower_byte c =
     (case map_of (zip ''ABCDEFGHIJKLMNOPQRSTUVWXYZ'' ''abcdefghijklmnopqrstuvwxyz'') c of
        Some l \<Rightarrow> l
      | None \<Rightarrow> c)"

definition ToLower :: "(string \<Rightarrow> string) \<Rightarrow> string \<Rightarrow> string" where
  "ToLower Map_ToLower s =
     (if list_all (\<lambda>c. \<not> digit7 c) s then map lower_byte s else Map_ToLower s)"

text \<open>\<open>strings.ReplaceAll(s, "/", "_")\<close>, the only replacement the generator makes.\<close>

definition ReplaceAll_slash :: "string \<Rightarrow> string" where
  "ReplaceAll_slash s = map (\<lambda>c. if c = CHR ''/'' then CHR ''_'' else c) s"

text \<open>\<open>strings.Split(s, ",")[0]\<close>: the part of \<open>s\<close> before its first comma.\<close>

definition Split_comma_first :: "string \<Rightarrow> string" where
  "Split_comma_first s = takeWhile (\<lambda>c. c \<noteq> CHR '','') s"

subsection \<open>Failures\<close>

datatype failure = Panic string | Error string

subsection \<open>Package \<open>reflect\<close>: kinds and types\<close>

datatype Kind =
    reflect_Invalid | reflect_Bool
  | reflect_Int | reflect_Int8 | reflect_Int16 | reflect_Int32 | reflect_Int64
  | reflect_Uint | reflect_Uint8 | reflect_Uint16 | reflect_Uint32 | reflect_Uint64
  | reflect_Uintptr | reflect_Float32 | reflect_Float64
  | reflect_Complex64 | reflect_Complex128
  | reflect_Array | reflect_Chan | reflect_Func | reflect_Interface | reflect_Map
  | reflect_Ptr | reflect_Slice | reflect_String | reflect_Struct
  | reflect_UnsafePointer

text \<open>
  A \<open>reflect.Type\<close> as the generator reads it: \<open>t.Kind()\<close>, \<open>t.String()\<close>, the
  fields \<open>t.Field(0)\<close>, ..., \<open>t.Field(t.NumField() - 1)\<close> of a struct and \<open>t.Elem()\<close>
  of a pointer. Of a field the generator reads \<open>field.Name\<close>, \<open>field.Tag.Get("json")\<close>
  (empty when the tag has no \<open>json\<close> key) and \<open>field.Type\<close>.
\<close>

datatype reflect_Type =
  reflect_Type (Kind: Kind) (String: string) (Fields: "StructField list")
    (Elem: "reflect_Type option")
and StructField =
  StructField (Field_Name: string) (Tag_json: string) (Field_Type: reflect_Type)

subsection \<open>The document types\<close>

text \<open>A value stored in an \<open>interface{}\<close> field; the nil interface is \<open>None\<close>.\<close>

datatype any = int_value int | string_value string | bool_value bool

datatype Schema = Schema
  (Type: string) (Format: string) (Properties: "(string \<times> Schema) list")
  (Required: "string list") (Items: "Schema option") (Ref: string)
  (AdditionalProperties: "any option") (Example: "any option")

text \<open>The composite literal \<open>Schema{Type: ty}\<close>; every other field has its zero value.\<close>

definition Schema_of_Type :: "string \<Rightarrow> Schema" where
  "Schema_of_Type ty = Schema ty [] [] [] None [] None None"

text \<open>The composite literal \<open>Schema{Ref: r}\<close>.\<close>

definition Schema_of_Ref :: "string \<Rightarrow> Schema" where
  "Schema_of_Ref r = Schema [] [] [] [] None r None None"

text \<open>The composite literal \<open>{Type: ty, Example: ex}\<close> of a property.\<close>

definition Schema_with_Example :: "string \<Rightarrow> any \<Rightarrow> Schema" where
  "Schema_with_Example ty ex = Schema ty [] [] [] None [] None (Some ex)"

text \<open>The assignments to one field of a schema.\<close>

fun set_Example :: "any \<Rightarrow> Schema \<Rightarrow> Schema" where
  "set_Example ex (Schema ty fmt props req items r addl _) =
     Schema ty fmt props req items r addl (Some ex)"

fun set_Properties :: "(string \<times> Schema) list \<Rightarrow> Schema \<Rightarrow> Schema" where
  "set_Properties props (Schema ty fmt _ req items r addl ex) =
     Schema ty fmt props req items r addl ex"

fun set_Required :: "string list \<Rightarrow> Schema \<Rightarrow> Schema" where
  "set_Required req (Schema ty fmt props _ items r addl ex) =
     Schema ty fmt props req items r addl ex"

text \<open>
  The structs of the document. Several structs share field names; the name of the
  struct qualifies a field where the plain name would mean a later struct's field.
\<close>

record SwaggerInfo =
  Version :: string
  Title :: string
  Description :: string
  Host :: string
  BasePath :: string

record Server =
  URL :: string
  Description :: string

record MediaType =
  MediaType_Schema :: Schema

record Response =
  Description :: string
  Content :: "(string \<times> MediaType) list"

record RequestBody =
  Description :: string
  Required :: bool
  Content :: "(string \<times> MediaType) list"

record Parameter =
  Name :: string
  In :: string
  Description :: string
  Required :: bool
  Parameter_Schema :: Schema

record Operation =
  Tags :: "string list"
  Summary :: string
  Description :: string
  Parameters :: "Parameter list"
  RequestBody :: "RequestBody option"
  Responses :: "(string \<times> Response) list"

record PathItem =
  Get :: "Operation option"
  Post :: "Operation option"
  Put :: "Operation option"
  Delete :: "Operation option"

record Components =
  Schemas :: "(string \<times> Schema) list"

record SwaggerSpec =
  OpenAPI :: string
  Info :: SwaggerInfo
  Servers :: "Server list"
  Paths :: "(string \<times> PathItem) list"
  Components :: Components

record RouteInfo =
  Method :: string
  Path :: string
  HandlerName :: string
  Tags :: "string list"

subsection \<open>The router\<close>

text \<open>
  A registered route of the router, as \<open>extractRoutes\<close> reads it: the results of
  \<open>route.GetPathTemplate()\<close> and \<open>route.GetMethods()\<close>, each a value or an error.
  The router is the sequence of its routes in the order in which \<open>router.Walk\<close>
  visits them, the routes of sub-routers included.
\<close>

record Route =
  GetPathTemplate :: "failure + string"
  GetMethods :: "failure + string list"

type_synonym Router = "Route list"

subsection \<open>Schema derivation\<close>

definition special_names :: "string list" where
  "special_names = [''id'', ''name'', ''email'', ''created_at'', ''updated_at'']"

text \<open>
  \<open>generateExample(fieldName, t)\<close>; the result \<open>nil\<close> is \<open>None\<close>. The first argument
  is the parameter of \<open>ToLower\<close>.
\<close>

definition generateExample ::
  "(string \<Rightarrow> string) \<Rightarrow> string \<Rightarrow> reflect_Type \<Rightarrow> any option" where
  "generateExample Map_ToLower fieldName t =
     (let lower = ToLower Map_ToLower fieldName in
      if lower = ''id'' then Some (int_value 1)
      else if lower = ''name'' then Some (string_value ''John Doe'')
      else if lower = ''email'' then Some (string_value ''john@example.com'')
      else if lower = ''created_at'' \<or> lower = ''updated_at''
        then Some (string_value ''2025-07-31T15:42:18.792477+03:00'')
      else if Kind t = reflect_String then Some (string_value ''example string'')
      else if Kind t \<in> {reflect_Int, reflect_Int64, reflect_Uint, reflect_Uint64}
        then Some (int_value 1)
      else if Kind t = reflect_Bool then Some (bool_value True)
      else None)"

text \<open>\<open>t.Elem()\<close>, which panics on a type without an element type.\<close>

definition Elem_call :: "reflect_Type \<Rightarrow> failure + reflect_Type" where
  "Elem_call t = (case Elem t of
                    None \<Rightarrow> Inl (Panic (''reflect: Elem of invalid type '' @ String t))
                  | Some e \<Rightarrow> Inr e)"

text \<open>
  The sizes of the types that the derivation descends into: the fields of a struct
  and the element type of a pointer are smaller than the type itself.
\<close>

lemma size_Fields_less: "size_list size (Fields t) < size t"
  by (cases t) simp

lemma size_Elem_less: "Elem t = Some e \<Longrightarrow> size e < size t"
  by (cases t) simp

lemma size_deref_Fields:
  "(if Kind t = reflect_Ptr then Elem_call t else Inr t) = Inr t' \<Longrightarrow>
     size_list size (Fields t') < size t"
  using size_Fields_less [of t] size_Fields_less [of t'] size_Elem_less [of t t']
  by (auto simp: Elem_call_def split: if_splits option.splits)

text \<open>
  \<open>generateModelSchema\<close> and \<open>generateFieldSchema\<close> call each other.
  \<open>generateModelSchema_loop\<close> is the loop of \<open>generateModelSchema\<close> over the fields
  that are left, with the schema built so far. \<open>t.NumField()\<close> panics on a type that
  is not a struct.
\<close>

function generateModelSchema :: "(string \<Rightarrow> string) \<Rightarrow> reflect_Type \<Rightarrow> failure + Schema"
  and generateModelSchema_loop ::
    "(string \<Rightarrow> string) \<Rightarrow> StructField list \<Rightarrow> Schema \<Rightarrow> failure + Schema"
  and generateFieldSchema :: "(string \<Rightarrow> string) \<Rightarrow> reflect_Type \<Rightarrow> failure + Schema"
where
  "generateModelSchema Map_ToLower t =
     (case (if Kind t = reflect_Ptr then Elem_call t else Inr t) of
        Inl e \<Rightarrow> Inl e
      | Inr t' \<Rightarrow>
          if Kind t' \<noteq> reflect_Struct
          then Inl (Panic (''reflect: NumField of non-struct type '' @ String t'))
          else generateModelSchema_loop Map_ToLower (Fields t')
                 (Schema ''object'' [] [] [] None [] None None))"
| "generateModelSchema_loop Map_ToLower [] schema = Inr schema"
| "generateModelSchema_loop Map_ToLower (StructField name jsonTag ft # rest) schema =
     (if jsonTag = [] \<or> jsonTag = ''-'' then generateModelSchema_loop Map_ToLower rest schema
      else
        let jsonName = Split_comma_first jsonTag;
            jsonName = (if jsonName = [] then ToLower Map_ToLower name else jsonName)
        in case generateFieldSchema Map_ToLower ft of
             Inl e \<Rightarrow> Inl e
           | Inr fieldSchema \<Rightarrow>
               let fieldSchema = (case generateExample Map_ToLower jsonName ft of
                                    Some example \<Rightarrow> set_Example example fieldSchema
                                  | None \<Rightarrow> fieldSchema);
                   schema = set_Properties
                              (AList.update jsonName fieldSchema (Properties schema)) schema;
                   schema = (if \<not> Contains jsonTag ''omitempty''
                             then set_Required (Schema.Required schema @ [jsonName]) schema
                             else schema)
               in generateModelSchema_loop Map_ToLower rest schema)"
| "generateFieldSchema Map_ToLower t =
     (let k = Kind t in
      if k = reflect_String then Inr (Schema_of_Type ''string'')
      else if k \<in> {reflect_Int, reflect_Int8, reflect_Int16, reflect_Int32, reflect_Int64}
        then Inr (Schema_of_Type ''integer'')
      else if k \<in> {reflect_Uint, reflect_Uint8, reflect_Uint16, reflect_Uint32, reflect_Uint64}
        then Inr (Schema ''integer'' ''int64'' [] [] None [] None None)
      else if k \<in> {reflect_Float32, reflect_Float64} then Inr (Schema_of_Type ''number'')
      else if k = reflect_Bool then Inr (Schema_of_Type ''boolean'')
      else if k = reflect_Slice
        then Inr (Schema ''array'' [] [] [] (Some (Schema_of_Type ''string'')) [] None None)
      else if k = reflect_Struct then
        (if String t = ''time.Time''
         then Inr (Schema ''string'' ''date-time'' [] [] None [] None None)
         else generateModelSchema Map_ToLower t)
      else Inr (Schema_of_Type ''string''))"
  by pat_completeness auto
termination
  apply (relation "measure (\<lambda>x. case x of
            Inl (Map_ToLower, t) \<Rightarrow> 3 * size t + 1
          | Inr (Inl (Map_ToLower, fs, schema)) \<Rightarrow> 3 * size_list size fs
          | Inr (Inr (Map_ToLower, t)) \<Rightarrow> 3 * size t + 2)")
      apply simp_all
  subgoal for t t' by (drule size_deref_Fields) simp
  done

declare generateModelSchema.simps [simp del]
declare generateModelSchema_loop.simps [simp del]
declare generateFieldSchema.simps [simp del]

text \<open>\<open>reflect.TypeOf(models.User{})\<close>: the struct \<open>User\<close> of package \<open>models\<close>.\<close>

definition models_User :: reflect_Type where
  "models_User = reflect_Type reflect_Struct ''models.User''
     [StructField ''ID'' ''id'' (reflect_Type reflect_Uint ''uint'' [] None),
      StructField ''Name'' ''name'' (reflect_Type reflect_String ''string'' [] None),
      StructField ''Email'' ''email'' (reflect_Type reflect_String ''string'' [] None),
      StructField ''CreatedAt'' ''created_at''
        (reflect_Type reflect_Struct ''time.Time'' [] None),
      StructField ''UpdatedAt'' ''updated_at''
        (reflect_Type reflect_Struct ''time.Time'' [] None)]
     None"

subsection \<open>Route extraction\<close>

text \<open>\<open>extractHandlerName(path, method)\<close>: \<open>fmt.Sprintf("%s%s", ...)\<close> concatenates.\<close>

definition extractHandlerName :: "string \<Rightarrow> string \<Rightarrow> string" where
  "extractHandlerName path method = method @ ReplaceAll_slash path"

definition extractTags :: "string \<Rightarrow> string list" where
  "extractTags path =
     (if Contains path ''/users'' then [''Users'']
      else if Contains path ''/health'' then [''Health'']
      else [''API''])"

text \<open>
  The function that \<open>extractRoutes\<close> passes to \<open>router.Walk\<close>. It appends to the
  variable \<open>routes\<close> of \<open>extractRoutes\<close>, here an argument and the result; the error
  it returns is \<open>nil\<close> on every path, so the walk visits every route.
\<close>

definition extractRoutes_walkFn :: "Route \<Rightarrow> RouteInfo list \<Rightarrow> RouteInfo list" where
  "extractRoutes_walkFn route routes =
     (case GetPathTemplate route of
        Inl err \<Rightarrow> routes
      | Inr pathTemplate \<Rightarrow>
          (case GetMethods route of
             Inl err \<Rightarrow> routes
           | Inr methods \<Rightarrow>
               fold (\<lambda>method routes.
                       routes @ [\<lparr>Method = method, Path = pathTemplate,
                                  HandlerName = extractHandlerName pathTemplate method,
                                  Tags = extractTags pathTemplate\<rparr>])
                    methods routes))"

definition extractRoutes :: "Router \<Rightarrow> RouteInfo list" where
  "extractRoutes router = fold extractRoutes_walkFn router []"

subsection \<open>Envelope schemas and model schemas\<close>

definition Response_schema :: Schema where
  "Response_schema =
     Schema ''object'' []
       [(''status'', Schema_with_Example ''string'' (string_value ''success'')),
        (''message'',
           Schema_with_Example ''string'' (string_value ''Operation completed successfully'')),
        (''data'', Schema [] [] [] [] None [] (Some (bool_value True)) None)]
       [''status'', ''message''] None [] None None"

definition ErrorResponse_schema :: Schema where
  "ErrorResponse_schema =
     Schema ''object'' []
       [(''status'', Schema_with_Example ''string'' (string_value ''error'')),
        (''message'', Schema_with_Example ''string'' (string_value ''Error description''))]
       [''status'', ''message''] None [] None None"

text \<open>The assignment \<open>spec.Components.Schemas[name] = schema\<close>.\<close>

definition set_schema :: "string \<Rightarrow> Schema \<Rightarrow> SwaggerSpec \<Rightarrow> SwaggerSpec" where
  "set_schema name schema spec =
     spec\<lparr>Components := (Components spec)
             \<lparr>Schemas := AList.update name schema (Schemas (Components spec))\<rparr>\<rparr>"

text \<open>
  \<open>generateSchemas(spec)\<close> changes \<open>spec\<close> in place and returns the error \<open>nil\<close>; the
  model returns the changed \<open>spec\<close>.
\<close>

definition generateSchemas ::
  "(string \<Rightarrow> string) \<Rightarrow> SwaggerSpec \<Rightarrow> failure + SwaggerSpec" where
  "generateSchemas Map_ToLower spec =
     (case generateModelSchema Map_ToLower models_User of
        Inl e \<Rightarrow> Inl e
      | Inr userSchema \<Rightarrow>
          Inr (set_schema ''ErrorResponse'' ErrorResponse_schema
                (set_schema ''Response'' Response_schema
                  (set_schema ''User'' userSchema spec))))"

subsection \<open>The operation builder\<close>

text \<open>The content \<open>map[string]MediaType{"application/json": {Schema: schema}}\<close>.\<close>

definition json_content :: "Schema \<Rightarrow> (string \<times> MediaType) list" where
  "json_content schema = [(''application/json'', \<lparr>MediaType_Schema = schema\<rparr>)]"

definition generateSummary :: "string \<Rightarrow> string \<Rightarrow> string" where
  "generateSummary method path =
     (let cleanPath = TrimPrefix path ''/api'' in
      if path = ''/api/health'' then ''Health check''
      else if method = ''GET'' \<and> cleanPath = ''/users'' then ''Get all users''
      else if method = ''GET'' \<and> Contains cleanPath ''/users/{id}'' then ''Get user by ID''
      else if method = ''POST'' \<and> cleanPath = ''/users'' then ''Create new user''
      else if method = ''PUT'' \<and> Contains cleanPath ''/users/{id}'' then ''Update user''
      else if method = ''DELETE'' \<and> Contains cleanPath ''/users/{id}'' then ''Delete user''
      else method @ '' '' @ cleanPath)"

text \<open>The standard responses of \<open>generateResponses\<close>: its \<open>switch method\<close>.\<close>

definition standard_responses :: "string \<Rightarrow> string \<Rightarrow> (string \<times> Response) list" where
  "standard_responses method path =
     (if method = ''GET'' then
        (if Contains path ''{id}'' then
           AList.update ''404''
             \<lparr>Response.Description = ''Resource not found'',
              Content = json_content (Schema_of_Ref ''#/components/schemas/ErrorResponse'')\<rparr>
             (AList.update ''200''
               \<lparr>Response.Description = ''Resource retrieved successfully'',
                Content = json_content (Schema_of_Ref ''#/components/schemas/Response'')\<rparr>
               [])
         else
           AList.update ''200''
             \<lparr>Response.Description = ''Resources retrieved successfully'',
              Content = json_content (Schema_of_Ref ''#/components/schemas/Response'')\<rparr>
             [])
      else if method = ''POST'' then
        AList.update ''201''
          \<lparr>Response.Description = ''Resource created successfully'',
           Content = json_content (Schema_of_Ref ''#/components/schemas/Response'')\<rparr>
          []
      else if method = ''PUT'' then
        AList.update ''200''
          \<lparr>Response.Description = ''Resource updated successfully'',
           Content = json_content (Schema_of_Ref ''#/components/schemas/Response'')\<rparr>
          []
      else if method = ''DELETE'' then
        AList.update ''200''
          \<lparr>Response.Description = ''Resource deleted successfully'',
           Content = json_content (Schema_of_Ref ''#/components/schemas/Response'')\<rparr>
          []
      else [])"

definition generateResponses :: "string \<Rightarrow> string \<Rightarrow> (string \<times> Response) list" where
  "generateResponses method path =
     (if path = ''/api/health'' then
        AList.update ''200''
          \<lparr>Response.Description = ''Health check successful'',
           Content = json_content
             (Schema ''object'' []
                [(''status'', Schema_with_Example ''string'' (string_value ''healthy'')),
                 (''message'',
                    Schema_with_Example ''string'' (string_value ''Server is running''))]
                [] None [] None None)\<rparr>
          []
      else
        AList.update ''500''
          \<lparr>Response.Description = ''Internal server error'',
           Content = json_content (Schema_of_Ref ''#/components/schemas/ErrorResponse'')\<rparr>
          (AList.update ''400''
            \<lparr>Response.Description = ''Bad request'',
             Content = json_content (Schema_of_Ref ''#/components/schemas/ErrorResponse'')\<rparr>
            (standard_responses method path)))"

definition generateRequestBody :: "string \<Rightarrow> RequestBody option" where
  "generateRequestBody path =
     (if Contains path ''/users'' then
        Some \<lparr>RequestBody.Description = ''User data'', Required = True,
              Content = json_content
                (Schema ''object'' []
                   [(''name'', Schema_with_Example ''string'' (string_value ''John Doe'')),
                    (''email'',
                       Schema_with_Example ''string'' (string_value ''john@example.com''))]
                   [''name'', ''email''] None [] None None)\<rparr>
      else None)"

definition generateOperation :: "RouteInfo \<Rightarrow> Operation" where
  "generateOperation route =
     (let operation =
            \<lparr>Operation.Tags = RouteInfo.Tags route,
             Summary = generateSummary (Method route) (Path route),
             Description = [],
             Parameters = [],
             RequestBody = None,
             Responses = generateResponses (Method route) (Path route)\<rparr>;
          operation =
            (if Contains (Path route) ''{id}''
             then operation\<lparr>Parameters :=
                    [\<lparr>Name = ''id'', In = ''path'', Description = ''Resource ID'',
                      Required = True, Parameter_Schema = Schema_of_Type ''integer''\<rparr>]\<rparr>
             else operation);
          operation =
            (if Method route = ''POST'' \<or> Method route = ''PUT''
             then operation\<lparr>RequestBody := generateRequestBody (Path route)\<rparr>
             else operation)
      in operation)"

subsection \<open>The paths and the assembly\<close>

text \<open>One round of the loop of \<open>generatePaths\<close>.\<close>

definition generatePaths_step :: "RouteInfo \<Rightarrow> SwaggerSpec \<Rightarrow> SwaggerSpec" where
  "generatePaths_step route spec =
     (let pathItem = (case map_of (Paths spec) (Path route) of
                        Some item \<Rightarrow> item
                      | None \<Rightarrow> \<lparr>Get = None, Post = None, Put = None, Delete = None\<rparr>);
          operation = generateOperation route;
          pathItem =
            (if Method route = ''GET'' then pathItem\<lparr>Get := Some operation\<rparr>
             else if Method route = ''POST'' then pathItem\<lparr>Post := Some operation\<rparr>
             else if Method route = ''PUT'' then pathItem\<lparr>Put := Some operation\<rparr>
             else if Method route = ''DELETE'' then pathItem\<lparr>Delete := Some operation\<rparr>
             else pathItem)
      in spec\<lparr>Paths := AList.update (Path route) pathItem (Paths spec)\<rparr>)"

text \<open>
  \<open>generatePaths(spec, routes)\<close> changes \<open>spec\<close> in place and returns the error \<open>nil\<close>;
  the model returns the changed \<open>spec\<close>.
\<close>

definition generatePaths :: "SwaggerSpec \<Rightarrow> RouteInfo list \<Rightarrow> failure + SwaggerSpec" where
  "generatePaths spec routes = Inr (fold generatePaths_step routes spec)"

text \<open>How \<open>GenerateSwagger\<close> wraps an error of a step; a panic passes unchanged.\<close>

fun wrap_error :: "string \<Rightarrow> failure \<Rightarrow> failure" where
  "wrap_error msg (Error e) = Error (msg @ e)"
| "wrap_error msg (Panic p) = Panic p"

definition GenerateSwagger ::
  "(string \<Rightarrow> string) \<Rightarrow> Router \<Rightarrow> SwaggerInfo \<Rightarrow> failure + SwaggerSpec" where
  "GenerateSwagger Map_ToLower router info =
     (let spec = \<lparr>OpenAPI = ''3.0.0'', Info = info,
                  Servers = [\<lparr>URL = ''http://'' @ Host info,
                              Description = ''Development server''\<rparr>],
                  Paths = [], Components = \<lparr>Schemas = []\<rparr>\<rparr>;
          routes = extractRoutes router
      in case generateSchemas Map_ToLower spec of
           Inl e \<Rightarrow> Inl (wrap_error ''error generating schemas: '' e)
         | Inr spec \<Rightarrow>
             (case generatePaths spec routes of
                Inl e \<Rightarrow> Inl (wrap_error ''error generating paths: '' e)
              | Inr spec \<Rightarrow> Inr spec))"

text \<open>
  \<open>SaveSwaggerSpec\<close> hands the document to \<open>json.MarshalIndent\<close> and \<open>os.WriteFile\<close>
  of the standard library; the embedding ends at the document.
\<close>

section \<open>Vocabulary of the properties\<close>

text \<open>
  The \<open>$ref\<close> strings of a schema: its own \<open>Ref\<close> when it is not empty (an empty
  \<open>Ref\<close> is omitted from the JSON), those of its properties and those of its items.
\<close>

fun Schema_refs :: "Schema \<Rightarrow> string list" where
  "Schema_refs (Schema ty fmt props req items r addl ex) =
     (if r = [] then [] else [r])
     @ concat (map (\<lambda>p. Schema_refs (snd p)) props)
     @ (case items of None \<Rightarrow> [] | Some i \<Rightarrow> Schema_refs i)"

definition Content_refs :: "(string \<times> MediaType) list \<Rightarrow> string list" where
  "Content_refs content = concat (map (\<lambda>p. Schema_refs (MediaType_Schema (snd p))) content)"

text \<open>The \<open>$ref\<close> strings of a request body; a nil pointer has none.\<close>

fun RequestBody_refs :: "RequestBody option \<Rightarrow> string list" where
  "RequestBody_refs None = []"
| "RequestBody_refs (Some body) = Content_refs (RequestBody.Content body)"

definition Responses_refs :: "(string \<times> Response) list \<Rightarrow> string list" where
  "Responses_refs responses =
     concat (map (\<lambda>p. Content_refs (Response.Content (snd p))) responses)"

text \<open>The \<open>$ref\<close> strings of an operation: parameters, request body, responses.\<close>

definition Operation_refs :: "Operation \<Rightarrow> string list" where
  "Operation_refs operation =
     concat (map (\<lambda>p. Schema_refs (Parameter_Schema p)) (Parameters operation))
     @ RequestBody_refs (RequestBody operation)
     @ Responses_refs (Responses operation)"

text \<open>The \<open>$ref\<close> strings of a slot of a path item; an empty slot has none.\<close>

fun slot_refs :: "Operation option \<Rightarrow> string list" where
  "slot_refs None = []"
| "slot_refs (Some operation) = Operation_refs operation"

definition PathItem_refs :: "PathItem \<Rightarrow> string list" where
  "PathItem_refs item =
     slot_refs (Get item) @ slot_refs (Post item) @ slot_refs (Put item)
     @ slot_refs (Delete item)"

text \<open>Every \<open>$ref\<close> string of the document: in the paths and in the component schemas.\<close>

definition SwaggerSpec_refs :: "SwaggerSpec \<Rightarrow> string list" where
  "SwaggerSpec_refs spec =
     concat (map (\<lambda>p. PathItem_refs (snd p)) (Paths spec))
     @ concat (map (\<lambda>p. Schema_refs (snd p)) (Schemas (Components spec)))"

text \<open>A \<open>$ref\<close> resolves when it points to a key of \<open>components.schemas\<close>.\<close>

definition ref_resolves :: "SwaggerSpec \<Rightarrow> string \<Rightarrow> bool" where
  "ref_resolves spec ref =
     (\<exists>name \<in> set (map fst (Schemas (Components spec))).
        ref = ''#/components/schemas/'' @ name)"

text \<open>The two \<open>$ref\<close> strings of the envelope schemas.\<close>

definition envelope_refs :: "string set" where
  "envelope_refs = {''#/components/schemas/Response'', ''#/components/schemas/ErrorResponse''}"

text \<open>The slot of a path item that belongs to a method; other methods have none.\<close>

definition PathItem_slot :: "string \<Rightarrow> PathItem \<Rightarrow> Operation option" where
  "PathItem_slot method item =
     (if method = ''GET'' then Get item
      else if method = ''POST'' then Post item
      else if method = ''PUT'' then Put item
      else if method = ''DELETE'' then Delete item
      else None)"

text \<open>
  The router with the single route \<open>/api/users/{id}\<close> registered with the two methods
  \<open>GET\<close> and \<open>PATCH\<close>.
\<close>

definition get_patch_router :: Router where
  "get_patch_router =
     [\<lparr>GetPathTemplate = Inr ''/api/users/{id}'', GetMethods = Inr [''GET'', ''PATCH'']\<rparr>]"

text \<open>The path item that one round of the loop of \<open>generatePaths\<close> stores.\<close>

definition step_item :: "RouteInfo \<Rightarrow> SwaggerSpec \<Rightarrow> PathItem" where
  "step_item route spec =
     (let pathItem = (case map_of (Paths spec) (Path route) of
                        Some item \<Rightarrow> item
                      | None \<Rightarrow> \<lparr>Get = None, Post = None, Put = None, Delete = None\<rparr>);
          operation = generateOperation route
      in if Method route = ''GET'' then pathItem\<lparr>Get := Some operation\<rparr>
         else if Method route = ''POST'' then pathItem\<lparr>Post := Some operation\<rparr>
         else if Method route = ''PUT'' then pathItem\<lparr>Put := Some operation\<rparr>
         else if Method route = ''DELETE'' then pathItem\<lparr>Delete := Some operation\<rparr>
         else pathItem)"

text \<open>The records that the walk function of \<open>extractRoutes\<close> appends for one route.\<close>

definition route_records :: "Route \<Rightarrow> RouteInfo list" where
  "route_records route =
     (case GetPathTemplate route of
        Inl err \<Rightarrow> []
      | Inr pathTemplate \<Rightarrow>
          (case GetMethods route of
             Inl err \<Rightarrow> []
           | Inr methods \<Rightarrow>
               map (\<lambda>method. \<lparr>Method = method, Path = pathTemplate,
                                HandlerName = extractHandlerName pathTemplate method,
                                Tags = extractTags pathTemplate\<rparr>) methods))"

text \<open>The \<open>jsonName\<close> that the loop of \<open>generateModelSchema\<close> computes for a field.\<close>

definition wire_name :: "(string \<Rightarrow> string) \<Rightarrow> string \<Rightarrow> string \<Rightarrow> string" where
  "wire_name Map_ToLower name jsonTag =
     (if Split_comma_first jsonTag = [] then ToLower Map_ToLower name else Split_comma_first jsonTag)"

text \<open>The schema that the derivation returns for \<open>models.User\<close>, written out.\<close>

definition User_schema :: Schema where
  "User_schema =
     Schema ''object'' []
       [(''id'', Schema ''integer'' ''int64'' [] [] None [] None (Some (int_value 1))),
        (''name'', Schema ''string'' [] [] [] None [] None (Some (string_value ''John Doe''))),
        (''email'', Schema ''string'' [] [] [] None [] None
                      (Some (string_value ''john@example.com''))),
        (''created_at'', Schema ''string'' ''date-time'' [] [] None [] None
                      (Some (string_value ''2025-07-31T15:42:18.792477+03:00''))),
        (''updated_at'', Schema ''string'' ''date-time'' [] [] None [] None
                      (Some (string_value ''2025-07-31T15:42:18.792477+03:00'')))]
       [''id'', ''name'', ''email'', ''created_at'', ''updated_at''] None [] None None"

text \<open>
  The information that \<open>generateSwaggerSpec\<close> of package \<open>router\<close> passes when no
  environment variable is set.
\<close>

definition default_info :: SwaggerInfo where
  "default_info = \<lparr>Version = ''1.0.0'', Title = ''WentFramework API'',
      Description = ''Auto-generated API documentation for WentFramework'',
      Host = ''localhost:3000'', BasePath = ''/api''\<rparr>"

text \<open>The document with which \<open>GenerateSwagger\<close> starts for \<open>default_info\<close>.\<close>

definition blank_spec :: SwaggerSpec where
  "blank_spec =
     \<lparr>OpenAPI = ''3.0.0'', Info = default_info,
      Servers = [\<lparr>URL = ''http://localhost:3000'', Description = ''Development server''\<rparr>],
      Paths = [], Components = \<lparr>Schemas = []\<rparr>\<rparr>"

text \<open>The router with the single route \<open>api.HandleFunc("/health", ...).Methods("GET")\<close>.\<close>

definition health_router :: Router where
  "health_router = [\<lparr>GetPathTemplate = Inr ''/api/health'', GetMethods = Inr [''GET'']\<rparr>]"

text \<open>The router with the single route \<open>GET /api/users/{id}\<close>.\<close>

definition user_by_id_router :: Router where
  "user_by_id_router =
     [\<lparr>GetPathTemplate = Inr ''/api/users/{id}'', GetMethods = Inr [''GET'']\<rparr>]"

text \<open>The router with the single route \<open>PATCH /api/users/{id}\<close>.\<close>

definition patch_router :: Router where
  "patch_router =
     [\<lparr>GetPathTemplate = Inr ''/api/users/{id}'', GetMethods = Inr [''PATCH'']\<rparr>]"

text \<open>
  The route of \<open>router.PathPrefix("/api")\<close>, which has a path template and no methods:
  \<open>GetMethods\<close> returns an error for it.
\<close>

definition api_prefix_route :: Route where
  "api_prefix_route =
     \<lparr>GetPathTemplate = Inr ''/api'', GetMethods = Inl (Error ''route has no methods'')\<rparr>"

section \<open>Evaluation rules\<close>

lemmas operation_defs =
  generateOperation_def generateResponses_def standard_responses_def generateSummary_def
  generateRequestBody_def TrimPrefix_def json_content_def Schema_of_Ref_def
  Schema_of_Type_def Schema_with_Example_def Let_def

section \<open>The schema of the user model and the assembled document\<close>

text \<open>One round of the field loop, for a field that is not skipped.\<close>

lemma generateModelSchema_loop_step:
  assumes "jsonTag \<noteq> []" "jsonTag \<noteq> ''-''" "generateFieldSchema Map_ToLower ft = Inr fieldSchema"
  shows "generateModelSchema_loop Map_ToLower (StructField name jsonTag ft # rest)
           (Schema ty fmt props req items r addl ex) =
         generateModelSchema_loop Map_ToLower rest
           (Schema ty fmt
              (AList.update (wire_name Map_ToLower name jsonTag)
                 (case generateExample Map_ToLower (wire_name Map_ToLower name jsonTag) ft of
                    Some example \<Rightarrow> set_Example example fieldSchema
                  | None \<Rightarrow> fieldSchema) props)
              (if Contains jsonTag ''omitempty'' then req else req @ [wire_name Map_ToLower name jsonTag])
              items r addl ex)"
  using assms by (simp add: generateModelSchema_loop.simps wire_name_def Let_def)

lemma generateModelSchema_struct:
  "Kind t = reflect_Struct \<Longrightarrow>
     generateModelSchema Map_ToLower t =
       generateModelSchema_loop Map_ToLower (Fields t) (Schema ''object'' [] [] [] None [] None None)"
  by (simp add: generateModelSchema.simps)

lemma generateModelSchema_User: "generateModelSchema Map_ToLower models_User = Inr User_schema"
proof -
  have uint: "generateFieldSchema Map_ToLower (reflect_Type reflect_Uint ''uint'' [] None) =
                Inr (Schema ''integer'' ''int64'' [] [] None [] None None)"
    by (simp add: generateFieldSchema.simps)
  have str: "generateFieldSchema Map_ToLower (reflect_Type reflect_String ''string'' [] None) =
               Inr (Schema ''string'' [] [] [] None [] None None)"
    by (simp add: generateFieldSchema.simps Schema_of_Type_def)
  have time: "generateFieldSchema Map_ToLower (reflect_Type reflect_Struct ''time.Time'' [] None) =
                Inr (Schema ''string'' ''date-time'' [] [] None [] None None)"
    by (simp add: generateFieldSchema.simps)
  have names: "wire_name Map_ToLower ''ID'' ''id'' = ''id''" "wire_name Map_ToLower ''Name'' ''name'' = ''name''"
    "wire_name Map_ToLower ''Email'' ''email'' = ''email''"
    "wire_name Map_ToLower ''CreatedAt'' ''created_at'' = ''created_at''"
    "wire_name Map_ToLower ''UpdatedAt'' ''updated_at'' = ''updated_at''"
    by (simp_all add: wire_name_def Split_comma_first_def)
  have ex: "generateExample Map_ToLower ''id'' t = Some (int_value 1)"
    "generateExample Map_ToLower ''name'' t = Some (string_value ''John Doe'')"
    "generateExample Map_ToLower ''email'' t = Some (string_value ''john@example.com'')"
    "generateExample Map_ToLower ''created_at'' t = Some (string_value ''2025-07-31T15:42:18.792477+03:00'')"
    "generateExample Map_ToLower ''updated_at'' t = Some (string_value ''2025-07-31T15:42:18.792477+03:00'')"
    for t
    by (simp_all add: generateExample_def ToLower_def lower_byte_def)
  show ?thesis
    unfolding models_User_def User_schema_def
    by (simp add: generateModelSchema_struct generateModelSchema_loop_step
          generateModelSchema_loop.simps(1) uint str time names ex)
qed

lemma generateSchemas_eq:
  "generateSchemas Map_ToLower spec =
     Inr (set_schema ''ErrorResponse'' ErrorResponse_schema
           (set_schema ''Response'' Response_schema (set_schema ''User'' User_schema spec)))"
  by (simp add: generateSchemas_def generateModelSchema_User)

lemma GenerateSwagger_eq:
  "GenerateSwagger Map_ToLower router info =
     Inr (fold generatePaths_step (extractRoutes router)
           \<lparr>OpenAPI = ''3.0.0'', Info = info,
            Servers = [\<lparr>URL = ''http://'' @ Host info, Description = ''Development server''\<rparr>],
            Paths = [],
            Components = \<lparr>Schemas = [(''User'', User_schema), (''Response'', Response_schema),
                                     (''ErrorResponse'', ErrorResponse_schema)]\<rparr>\<rparr>)"
  by (simp add: GenerateSwagger_def generateSchemas_eq generatePaths_def set_schema_def Let_def)

lemma generatePaths_step_Components:
  "Components (generatePaths_step route spec) = Components spec"
  by (simp add: generatePaths_step_def Let_def)

lemma fold_generatePaths_step_Components:
  "Components (fold generatePaths_step routes spec) = Components spec"
  by (induction routes arbitrary: spec) (simp_all add: generatePaths_step_Components)

lemma extractRoutes_health:
  "extractRoutes health_router =
     [\<lparr>Method = ''GET'', Path = ''/api/health'', HandlerName = ''GET_api_health'',
       Tags = [''Health'']\<rparr>]"
  by (simp add: extractRoutes_def health_router_def extractRoutes_walkFn_def
        extractHandlerName_def extractTags_def ReplaceAll_slash_def)

section \<open>A health-check route alone\<close>

text \<open>
  C1 says that the document of a health-check route alone has exactly the two schemas
  \<open>Response\<close> and \<open>ErrorResponse\<close>. \<open>generateSchemas\<close> takes no model registry: it
  derives the schema of \<open>models.User\<close> on every run, so the document has the key
  \<open>User\<close> too.
\<close>

theorem health_document_has_User_schema:
  "\<forall>Map_ToLower. \<exists>spec.
     GenerateSwagger Map_ToLower health_router default_info = Inr spec \<and>
     ''User'' \<in> set (map fst (Schemas (Components spec)))"
  by (simp add: GenerateSwagger_eq fold_generatePaths_step_Components)

text \<open>
  C1, amended: for the router with the single route \<open>GET /api/health\<close>, the assembly
  succeeds, \<open>components.schemas\<close> has exactly the three keys \<open>User\<close>, \<open>Response\<close> and
  \<open>ErrorResponse\<close>, and \<open>paths\<close> has exactly one entry, \<open>/api/health\<close>, whose only
  operation is in the \<open>get\<close> slot and whose responses have the key 200 only.
\<close>

theorem health_document:
  "\<exists>spec operation. GenerateSwagger Map_ToLower health_router info = Inr spec \<and>
     map fst (Schemas (Components spec)) = [''User'', ''Response'', ''ErrorResponse''] \<and>
     Paths spec = [(''/api/health'',
                     \<lparr>Get = Some operation, Post = None, Put = None, Delete = None\<rparr>)] \<and>
     map fst (Responses operation) = [''200'']"
  by (simp add: GenerateSwagger_eq extractRoutes_health generatePaths_step_def operation_defs)

section \<open>References resolve\<close>

lemma generateOperation_Responses:
  "Responses (generateOperation route) = generateResponses (Method route) (Path route)"
  by (simp add: generateOperation_def Let_def)

lemma generateOperation_Parameters:
  "Parameters (generateOperation route) =
     (if Contains (Path route) ''{id}''
      then [\<lparr>Name = ''id'', In = ''path'', Description = ''Resource ID'', Required = True,
             Parameter_Schema = Schema_of_Type ''integer''\<rparr>]
      else [])"
  by (simp add: generateOperation_def Let_def)

lemma generateOperation_RequestBody:
  "RequestBody (generateOperation route) =
     (if Method route = ''POST'' \<or> Method route = ''PUT''
      then generateRequestBody (Path route) else None)"
  by (simp add: generateOperation_def Let_def)

lemma standard_responses_refs:
  "set (Responses_refs (standard_responses method path)) \<subseteq> envelope_refs"
  by (simp add: standard_responses_def Responses_refs_def Content_refs_def json_content_def
        Schema_of_Ref_def envelope_refs_def)

lemma Responses_refs_update:
  "set (Responses_refs (AList.update k v al))
     \<subseteq> set (Content_refs (Response.Content v)) \<union> set (Responses_refs al)"
  unfolding Responses_refs_def by (induction al) auto

lemma generateResponses_refs:
  "set (Responses_refs (generateResponses method path)) \<subseteq> envelope_refs"
proof (cases "path = ''/api/health''")
  case True
  then show ?thesis
    by (simp add: generateResponses_def Responses_refs_def Content_refs_def json_content_def
          Schema_with_Example_def)
next
  case False
  let ?e = "json_content (Schema_of_Ref ''#/components/schemas/ErrorResponse'')"
  let ?r400 = "\<lparr>Response.Description = ''Bad request'', Content = ?e\<rparr>"
  let ?r500 = "\<lparr>Response.Description = ''Internal server error'', Content = ?e\<rparr>"
  let ?std = "standard_responses method path"
  have e: "set (Content_refs ?e) \<subseteq> envelope_refs"
    by (simp add: Content_refs_def json_content_def Schema_of_Ref_def envelope_refs_def)
  have "set (Responses_refs (AList.update ''500'' ?r500 (AList.update ''400'' ?r400 ?std)))
          \<subseteq> set (Content_refs ?e) \<union> set (Responses_refs (AList.update ''400'' ?r400 ?std))"
    using Responses_refs_update [of "''500''" ?r500] by simp
  also have "\<dots> \<subseteq> set (Content_refs ?e) \<union> (set (Content_refs ?e) \<union> set (Responses_refs ?std))"
    using Responses_refs_update [of "''400''" ?r400 ?std] by auto
  also have "\<dots> \<subseteq> envelope_refs"
    using e standard_responses_refs [of "method" "path"] by auto
  finally show ?thesis
    using False by (simp add: generateResponses_def)
qed

lemma generateRequestBody_refs: "RequestBody_refs (generateRequestBody path) = []"
  by (simp add: generateRequestBody_def Content_refs_def json_content_def
        Schema_with_Example_def)

lemma generateOperation_refs: "set (Operation_refs (generateOperation route)) \<subseteq> envelope_refs"
  using generateResponses_refs [of "Method route" "Path route"]
  by (simp add: Operation_refs_def generateOperation_Responses generateOperation_Parameters
        generateOperation_RequestBody generateRequestBody_refs Schema_of_Type_def)

lemma PathItem_refs_empty:
  "PathItem_refs \<lparr>Get = None, Post = None, Put = None, Delete = None\<rparr> = []"
  by (simp add: PathItem_refs_def)

lemma set_update_subset: "set (AList.update k v al) \<subseteq> insert (k, v) (set al)"
  by (induction al) auto

lemma generatePaths_step_refs:
  assumes "\<forall>p \<in> set (Paths spec). set (PathItem_refs (snd p)) \<subseteq> envelope_refs"
  shows "\<forall>p \<in> set (Paths (generatePaths_step route spec)).
           set (PathItem_refs (snd p)) \<subseteq> envelope_refs"
proof -
  let ?old = "case map_of (Paths spec) (Path route) of
                Some item \<Rightarrow> item
              | None \<Rightarrow> \<lparr>Get = None, Post = None, Put = None, Delete = None\<rparr>"
  let ?op = "Some (generateOperation route)"
  have old: "set (PathItem_refs ?old) \<subseteq> envelope_refs"
  proof (cases "map_of (Paths spec) (Path route)")
    case None
    then show ?thesis by (simp add: PathItem_refs_empty)
  next
    case (Some item)
    then have "(Path route, item) \<in> set (Paths spec)" by (rule map_of_SomeD)
    with assms Some show ?thesis by force
  qed
  have new: "set (PathItem_refs (?old\<lparr>Get := ?op\<rparr>)) \<subseteq> envelope_refs"
    "set (PathItem_refs (?old\<lparr>Post := ?op\<rparr>)) \<subseteq> envelope_refs"
    "set (PathItem_refs (?old\<lparr>Put := ?op\<rparr>)) \<subseteq> envelope_refs"
    "set (PathItem_refs (?old\<lparr>Delete := ?op\<rparr>)) \<subseteq> envelope_refs"
    using old generateOperation_refs [of route] by (simp_all add: PathItem_refs_def)
  define item' where "item' =
     (if Method route = ''GET'' then ?old\<lparr>Get := ?op\<rparr>
      else if Method route = ''POST'' then ?old\<lparr>Post := ?op\<rparr>
      else if Method route = ''PUT'' then ?old\<lparr>Put := ?op\<rparr>
      else if Method route = ''DELETE'' then ?old\<lparr>Delete := ?op\<rparr>
      else ?old)"
  have paths: "Paths (generatePaths_step route spec) =
                 AList.update (Path route) item' (Paths spec)"
    by (simp add: generatePaths_step_def Let_def item'_def)
  have item': "set (PathItem_refs item') \<subseteq> envelope_refs"
    unfolding item'_def using old new by presburger
  show ?thesis
  proof
    fix p
    assume "p \<in> set (Paths (generatePaths_step route spec))"
    then have "p = (Path route, item') \<or> p \<in> set (Paths spec)"
      using set_update_subset [of "Path route" item' "Paths spec"] paths by auto
    then show "set (PathItem_refs (snd p)) \<subseteq> envelope_refs"
      using assms item' by auto
  qed
qed

lemma fold_generatePaths_step_refs:
  assumes "\<forall>p \<in> set (Paths spec). set (PathItem_refs (snd p)) \<subseteq> envelope_refs"
  shows "\<forall>p \<in> set (Paths (fold generatePaths_step routes spec)).
           set (PathItem_refs (snd p)) \<subseteq> envelope_refs"
  using assms
proof (induction routes arbitrary: spec)
  case Nil
  then show ?case by simp
next
  case (Cons route routes)
  from Cons.prems have "\<forall>p \<in> set (Paths (generatePaths_step route spec)).
           set (PathItem_refs (snd p)) \<subseteq> envelope_refs"
    by (rule generatePaths_step_refs)
  then show ?case using Cons.IH by simp
qed


lemma component_schema_refs:
  "Schema_refs User_schema = []" "Schema_refs Response_schema = []"
  "Schema_refs ErrorResponse_schema = []"
  by (simp_all add: User_schema_def Response_schema_def ErrorResponse_schema_def
        Schema_with_Example_def)

text \<open>
  C6: for every router and every information, the assembly succeeds, every \<open>$ref\<close>
  string of the document resolves to a key of \<open>components.schemas\<close>, the only
  \<open>$ref\<close> strings are the two of the envelope schemas, and both envelope schemas are
  in \<open>components.schemas\<close>.
\<close>

theorem GenerateSwagger_refs_resolve:
  "\<exists>spec. GenerateSwagger Map_ToLower router info = Inr spec \<and>
     (\<forall>ref \<in> set (SwaggerSpec_refs spec). ref_resolves spec ref) \<and>
     set (SwaggerSpec_refs spec)
       \<subseteq> {''#/components/schemas/Response'', ''#/components/schemas/ErrorResponse''} \<and>
     {''Response'', ''ErrorResponse''} \<subseteq> set (map fst (Schemas (Components spec)))"
proof -
  let ?spec0 = "\<lparr>OpenAPI = ''3.0.0'', Info = info,
            Servers = [\<lparr>URL = ''http://'' @ Host info, Description = ''Development server''\<rparr>],
            Paths = [],
            Components = \<lparr>Schemas = [(''User'', User_schema), (''Response'', Response_schema),
                                     (''ErrorResponse'', ErrorResponse_schema)]\<rparr>\<rparr>"
  let ?spec = "fold generatePaths_step (extractRoutes router) ?spec0"
  have result: "GenerateSwagger Map_ToLower router info = Inr ?spec"
    by (rule GenerateSwagger_eq)
  have schemas: "Schemas (Components ?spec) =
      [(''User'', User_schema), (''Response'', Response_schema),
       (''ErrorResponse'', ErrorResponse_schema)]"
    by (simp add: fold_generatePaths_step_Components)
  have "\<forall>p \<in> set (Paths ?spec). set (PathItem_refs (snd p)) \<subseteq> envelope_refs"
    by (rule fold_generatePaths_step_refs) simp
  then have refs: "set (SwaggerSpec_refs ?spec) \<subseteq> envelope_refs"
    unfolding SwaggerSpec_refs_def schemas by (auto simp: component_schema_refs)
  have resolves: "ref_resolves ?spec ref" if "ref \<in> envelope_refs" for ref
    using that unfolding ref_resolves_def schemas envelope_refs_def by auto
  show ?thesis
    using result refs resolves schemas unfolding envelope_refs_def
    by (intro exI [of _ ?spec] conjI) auto
qed

text \<open>C6 at the router with the single route \<open>GET /api/users/{id}\<close>.\<close>

theorem GenerateSwagger_refs_resolve_witness:
  "\<forall>Map_ToLower. \<exists>spec.
     GenerateSwagger Map_ToLower user_by_id_router default_info = Inr spec \<and>
     ''#/components/schemas/ErrorResponse'' \<in> set (SwaggerSpec_refs spec) \<and>
     ref_resolves spec ''#/components/schemas/ErrorResponse''"
proof
  fix Map_ToLower
  obtain spec where spec: "GenerateSwagger Map_ToLower user_by_id_router default_info = Inr spec"
    and resolve: "\<forall>ref \<in> set (SwaggerSpec_refs spec). ref_resolves spec ref"
    using GenerateSwagger_refs_resolve [of Map_ToLower user_by_id_router default_info]
    by blast
  have routes: "extractRoutes user_by_id_router =
     [\<lparr>Method = ''GET'', Path = ''/api/users/{id}'', HandlerName = ''GET_api_users_{id}'',
       Tags = [''Users'']\<rparr>]"
    by (simp add: extractRoutes_def user_by_id_router_def extractRoutes_walkFn_def
        extractHandlerName_def extractTags_def ReplaceAll_slash_def)
  have "''#/components/schemas/ErrorResponse'' \<in> set (SwaggerSpec_refs spec)"
    using spec unfolding GenerateSwagger_eq routes
    by (auto simp: generatePaths_step_def SwaggerSpec_refs_def PathItem_refs_def
          Operation_refs_def Responses_refs_def Content_refs_def operation_defs)
  with spec resolve
  show "\<exists>spec. GenerateSwagger Map_ToLower user_by_id_router default_info = Inr spec \<and>
     ''#/components/schemas/ErrorResponse'' \<in> set (SwaggerSpec_refs spec) \<and>
     ref_resolves spec ''#/components/schemas/ErrorResponse''"
    by blast
qed

section \<open>Route extraction\<close>

text \<open>The extraction is the concatenation of the records of each route.\<close>

lemma fold_append_each: "fold (\<lambda>x acc. acc @ [f x]) xs acc = acc @ map f xs"
  by (induction xs arbitrary: acc) simp_all

lemma extractRoutes_walkFn_append:
  "extractRoutes_walkFn route routes = routes @ route_records route"
  by (simp add: extractRoutes_walkFn_def route_records_def fold_append_each
        split: sum.splits)

lemma fold_extractRoutes_walkFn:
  "fold extractRoutes_walkFn router routes = routes @ concat (map route_records router)"
  by (induction router arbitrary: routes) (simp_all add: extractRoutes_walkFn_append)

lemma extractRoutes_concat: "extractRoutes router = concat (map route_records router)"
  by (simp add: extractRoutes_def fold_extractRoutes_walkFn)

lemma extractRoutes_append:
  "extractRoutes (xs @ ys) = extractRoutes xs @ extractRoutes ys"
  by (simp add: extractRoutes_concat)

lemma route_records_malformed:
  "isl (GetPathTemplate route) \<or> isl (GetMethods route) \<Longrightarrow> route_records route = []"
  by (auto simp: route_records_def isl_def split: sum.splits)

text \<open>
  C9: a route whose path template or whose methods cannot be obtained is skipped.
  The extraction returns the records of the routes before it followed by those of
  the routes after it, the document is the one of the router without the route, and
  the assembly succeeds.
\<close>

theorem extractRoutes_skips_malformed:
  assumes "isl (GetPathTemplate route) \<or> isl (GetMethods route)"
  shows "extractRoutes (before @ route # after) = extractRoutes before @ extractRoutes after \<and>
         GenerateSwagger Map_ToLower (before @ route # after) info = GenerateSwagger Map_ToLower (before @ after) info \<and>
         (\<exists>spec. GenerateSwagger Map_ToLower (before @ route # after) info = Inr spec)"
proof -
  have "extractRoutes (before @ route # after) = extractRoutes (before @ after)"
    using assms by (simp add: extractRoutes_concat route_records_malformed)
  then show ?thesis
    by (simp add: extractRoutes_append GenerateSwagger_eq)
qed

text \<open>C9 at the router of the \<open>/api\<close> prefix route followed by the health-check route.\<close>

theorem extractRoutes_skips_malformed_witness:
  "isl (GetMethods api_prefix_route) \<and>
   extractRoutes (api_prefix_route # health_router) =
     [\<lparr>Method = ''GET'', Path = ''/api/health'', HandlerName = ''GET_api_health'',
       Tags = [''Health'']\<rparr>] \<and>
   (\<forall>Map_ToLower.
      GenerateSwagger Map_ToLower (api_prefix_route # health_router) default_info =
        GenerateSwagger Map_ToLower health_router default_info)"
proof -
  have h: "isl (GetPathTemplate api_prefix_route) \<or> isl (GetMethods api_prefix_route)"
    by (simp add: api_prefix_route_def)
  have e: "extractRoutes [] = []" by (simp add: extractRoutes_def)
  show ?thesis
    using extractRoutes_skips_malformed [OF h, of "[]" health_router _ default_info]
    by (simp add: e extractRoutes_health api_prefix_route_def)
qed

section \<open>The paths map\<close>

text \<open>One round of the loop of \<open>generatePaths\<close>, seen through the paths map.\<close>

lemma generatePaths_step_Paths:
  "Paths (generatePaths_step route spec) =
     AList.update (Path route) (step_item route spec) (Paths spec)"
  by (simp add: generatePaths_step_def step_item_def Let_def)

lemma generatePaths_step_map_of:
  "map_of (Paths (generatePaths_step route spec)) path =
     (if path = Path route then Some (step_item route spec) else map_of (Paths spec) path)"
  by (simp add: generatePaths_step_Paths update_conv')

lemma step_item_same_method:
  "Method route \<in> {''GET'', ''POST'', ''PUT'', ''DELETE''} \<Longrightarrow>
     PathItem_slot (Method route) (step_item route spec) = Some (generateOperation route)"
  by (auto simp: step_item_def PathItem_slot_def Let_def)

lemma step_item_other_method:
  "method \<noteq> Method route \<Longrightarrow>
     PathItem_slot method (step_item route spec) =
       PathItem_slot method (case map_of (Paths spec) (Path route) of
                               Some item \<Rightarrow> item
                             | None \<Rightarrow> \<lparr>Get = None, Post = None, Put = None, Delete = None\<rparr>)"
  by (auto simp: step_item_def PathItem_slot_def Let_def)

lemma step_item_unsupported:
  "Method route \<notin> {''GET'', ''POST'', ''PUT'', ''DELETE''} \<Longrightarrow>
     step_item route spec =
       (case map_of (Paths spec) (Path route) of
          Some item \<Rightarrow> item
        | None \<Rightarrow> \<lparr>Get = None, Post = None, Put = None, Delete = None\<rparr>)"
  by (simp add: step_item_def Let_def)

lemma fold_generatePaths_step_last:
  assumes "method \<in> {''GET'', ''POST'', ''PUT'', ''DELETE''}"
    and "\<exists>r \<in> set routes. Method r = method \<and> Path r = path"
  shows "\<exists>item. map_of (Paths (fold generatePaths_step routes spec)) path = Some item \<and>
           PathItem_slot method item =
             Some (generateOperation
                     (last (filter (\<lambda>r. Method r = method \<and> Path r = path) routes)))"
  using assms(2)
proof (induction routes rule: rev_induct)
  case Nil
  then show ?case by simp
next
  case (snoc route routes)
  let ?spec = "fold generatePaths_step routes spec"
  show ?case
  proof (cases "Method route = method \<and> Path route = path")
    case True
    then show ?thesis
      using assms(1) step_item_same_method [of route ?spec]
      by (simp add: generatePaths_step_map_of)
  next
    case False
    with snoc.prems have "\<exists>r \<in> set routes. Method r = method \<and> Path r = path"
      by auto
    from snoc.IH [OF this] obtain item
      where item: "map_of (Paths ?spec) path = Some item"
        and slot: "PathItem_slot method item =
             Some (generateOperation
                     (last (filter (\<lambda>r. Method r = method \<and> Path r = path) routes)))"
      by blast
    show ?thesis
    proof (cases "Path route = path")
      case True
      with False have "method \<noteq> Method route" by auto
      then show ?thesis
        using True item slot step_item_other_method [of "method" route ?spec] False
        by (simp add: generatePaths_step_map_of)
    next
      case False
      then show ?thesis
        using item slot \<open>\<not> (Method route = method \<and> Path route = path)\<close>
        by (auto simp: generatePaths_step_map_of)
    qed
  qed
qed

lemma generatePaths_step_distinct:
  "distinct (map fst (Paths spec)) \<Longrightarrow>
     distinct (map fst (Paths (generatePaths_step route spec)))"
  by (simp add: generatePaths_step_Paths distinct_update)

lemma fold_generatePaths_step_distinct:
  "distinct (map fst (Paths spec)) \<Longrightarrow>
     distinct (map fst (Paths (fold generatePaths_step routes spec)))"
  by (induction routes arbitrary: spec) (simp_all add: generatePaths_step_distinct)

text \<open>
  C7 says that, of two records with the same method and path, the operation of the
  later one is stored in the paths map. A path item has the four slots \<open>get\<close>,
  \<open>post\<close>, \<open>put\<close> and \<open>delete\<close> only: of two \<open>PATCH\<close> records with the same path,
  neither operation is stored.
\<close>

theorem generatePaths_duplicate_patch_stores_nothing:
  "generatePaths blank_spec
     [\<lparr>Method = ''PATCH'', Path = ''/api/users/{id}'', HandlerName = ''PATCH_api_users_{id}'',
       Tags = [''Users'']\<rparr>,
      \<lparr>Method = ''PATCH'', Path = ''/api/users/{id}'', HandlerName = ''PATCH_api_users_{id}'',
       Tags = [''Users'']\<rparr>]
   = Inr (blank_spec\<lparr>Paths :=
            [(''/api/users/{id}'', \<lparr>Get = None, Post = None, Put = None, Delete = None\<rparr>)]\<rparr>)"
  by (simp add: generatePaths_def generatePaths_step_def blank_spec_def Let_def)

text \<open>
  C7, amended: when two records of the route list have the same method and path, the
  method is one of \<open>GET\<close>, \<open>POST\<close>, \<open>PUT\<close>, \<open>DELETE\<close>, and no record after the later of
  the two has that method and path, then the final paths map holds, in the slot of
  that method of that path, the operation built from the later record; the keys of
  the paths map stay distinct.
\<close>

theorem generatePaths_last_write_wins:
  assumes "routes = before @ earlier # between @ later # after"
    and "Method earlier = Method later" and "Path earlier = Path later"
    and "\<forall>r \<in> set after. \<not> (Method r = Method later \<and> Path r = Path later)"
    and "Method later \<in> {''GET'', ''POST'', ''PUT'', ''DELETE''}"
    and "distinct (map fst (Paths spec))"
  shows "\<exists>spec' item. generatePaths spec routes = Inr spec' \<and>
           map_of (Paths spec') (Path later) = Some item \<and>
           PathItem_slot (Method later) item = Some (generateOperation later) \<and>
           distinct (map fst (Paths spec'))"
proof -
  let ?same = "\<lambda>r. Method r = Method later \<and> Path r = Path later"
  have "filter ?same after = []"
    using assms(4) by (simp add: filter_empty_conv)
  then have "filter ?same routes = filter ?same (before @ earlier # between) @ [later]"
    using assms(1) by simp
  then have last: "last (filter ?same routes) = later"
    by simp
  have "\<exists>r \<in> set routes. ?same r"
    using assms(1) by auto
  from fold_generatePaths_step_last [OF assms(5) this, of spec] last
  obtain item where "map_of (Paths (fold generatePaths_step routes spec)) (Path later) = Some item"
    and "PathItem_slot (Method later) item = Some (generateOperation later)"
    by auto
  then show ?thesis
    using fold_generatePaths_step_distinct [OF assms(6), of routes]
    by (simp add: generatePaths_def)
qed

text \<open>The amended C7 at two \<open>GET /api/users\<close> records with different tags.\<close>

theorem generatePaths_last_write_wins_witness:
  "\<exists>spec' item.
     generatePaths blank_spec
       [\<lparr>Method = ''GET'', Path = ''/api/users'', HandlerName = ''first'', Tags = [''Old'']\<rparr>,
        \<lparr>Method = ''GET'', Path = ''/api/users'', HandlerName = ''second'', Tags = [''Users'']\<rparr>]
       = Inr spec' \<and>
     map_of (Paths spec') ''/api/users'' = Some item \<and>
     Get item = Some (generateOperation
       \<lparr>Method = ''GET'', Path = ''/api/users'', HandlerName = ''second'', Tags = [''Users'']\<rparr>) \<and>
     distinct (map fst (Paths spec'))"
  using generatePaths_last_write_wins
    [of "[\<lparr>Method = ''GET'', Path = ''/api/users'', HandlerName = ''first'', Tags = [''Old'']\<rparr>,
          \<lparr>Method = ''GET'', Path = ''/api/users'', HandlerName = ''second'',
            Tags = [''Users'']\<rparr>]"
        "[]"
        "\<lparr>Method = ''GET'', Path = ''/api/users'', HandlerName = ''first'', Tags = [''Old'']\<rparr>"
        "[]"
        "\<lparr>Method = ''GET'', Path = ''/api/users'', HandlerName = ''second'', Tags = [''Users'']\<rparr>"
        "[]" blank_spec]
  by (simp add: blank_spec_def PathItem_slot_def)

section \<open>Routes with a method that has no slot\<close>

lemma route_records_member:
  assumes "GetPathTemplate route = Inr path" "GetMethods route = Inr methods"
    "method \<in> set methods"
  shows "\<lparr>Method = method, Path = path, HandlerName = extractHandlerName path method,
          Tags = extractTags path\<rparr> \<in> set (route_records route)"
  using assms by (simp add: route_records_def)

lemma fold_generatePaths_step_unsupported:
  assumes "\<forall>r \<in> set routes. Path r = path \<longrightarrow>
             Method r \<notin> {''GET'', ''POST'', ''PUT'', ''DELETE''}"
  shows "map_of (Paths (fold generatePaths_step routes spec)) path =
           (if path \<in> Path ` set routes
            then Some (case map_of (Paths spec) path of
                         Some item \<Rightarrow> item
                       | None \<Rightarrow> \<lparr>Get = None, Post = None, Put = None, Delete = None\<rparr>)
            else map_of (Paths spec) path)"
  using assms
proof (induction routes rule: rev_induct)
  case Nil
  then show ?case by simp
next
  case (snoc route routes)
  let ?spec = "fold generatePaths_step routes spec"
  from snoc have IH: "map_of (Paths ?spec) path =
           (if path \<in> Path ` set routes
            then Some (case map_of (Paths spec) path of
                         Some item \<Rightarrow> item
                       | None \<Rightarrow> \<lparr>Get = None, Post = None, Put = None, Delete = None\<rparr>)
            else map_of (Paths spec) path)"
    by simp
  show ?case
  proof (cases "Path route = path")
    case True
    with snoc.prems have "Method route \<notin> {''GET'', ''POST'', ''PUT'', ''DELETE''}"
      by simp
    from step_item_unsupported [OF this, of ?spec] True IH show ?thesis
      by (simp add: generatePaths_step_map_of)
  next
    case False
    with IH show ?thesis
      by (auto simp: generatePaths_step_map_of)
  qed
qed

lemma fold_generatePaths_step_present:
  "route \<in> set routes \<Longrightarrow>
     \<exists>item. map_of (Paths (fold generatePaths_step routes spec)) (Path route) = Some item"
proof (induction routes rule: rev_induct)
  case Nil
  then show ?case by simp
next
  case (snoc r routes)
  then show ?case
    by (cases "Path route = Path r") (auto simp: generatePaths_step_map_of)
qed

text \<open>
  C10 says that a route with a method outside \<open>GET\<close>, \<open>POST\<close>, \<open>PUT\<close>, \<open>DELETE\<close> yields
  a path entry with zero operations. The entry belongs to the path, not to the record:
  for the route \<open>/api/users/{id}\<close> with the methods \<open>GET\<close> and \<open>PATCH\<close>, the record of
  \<open>PATCH\<close> is emitted and the entry of its path holds the operation of \<open>GET\<close>.
\<close>

theorem get_patch_route_entry_has_operation:
  "\<lparr>Method = ''PATCH'', Path = ''/api/users/{id}'', HandlerName = ''PATCH_api_users_{id}'',
     Tags = [''Users'']\<rparr> \<in> set (extractRoutes get_patch_router) \<and>
   (\<forall>Map_ToLower. \<exists>doc.
      GenerateSwagger Map_ToLower get_patch_router default_info = Inr doc \<and>
      map_of (Paths doc) ''/api/users/{id}'' =
        Some \<lparr>Get = Some (generateOperation
                 \<lparr>Method = ''GET'', Path = ''/api/users/{id}'',
                   HandlerName = ''GET_api_users_{id}'', Tags = [''Users'']\<rparr>),
               Post = None, Put = None, Delete = None\<rparr>)"
proof -
  have routes: "extractRoutes get_patch_router =
     [\<lparr>Method = ''GET'', Path = ''/api/users/{id}'', HandlerName = ''GET_api_users_{id}'',
       Tags = [''Users'']\<rparr>,
      \<lparr>Method = ''PATCH'', Path = ''/api/users/{id}'', HandlerName = ''PATCH_api_users_{id}'',
       Tags = [''Users'']\<rparr>]"
    by (simp add: extractRoutes_def get_patch_router_def extractRoutes_walkFn_def
        extractHandlerName_def extractTags_def ReplaceAll_slash_def)
  show ?thesis
    by (simp add: routes GenerateSwagger_eq generatePaths_step_def Let_def)
qed

text \<open>
  C10, amended: for a route of the router with a method outside \<open>GET\<close>, \<open>POST\<close>, \<open>PUT\<close>,
  \<open>DELETE\<close>, the extraction emits the record of that method; the round of the
  path-building loop for that record stores, at the record's path, the path item that
  was there or the empty one, with no slot changed; and the document has an entry at
  that path, which has no operation when no record of that path has one of the four
  methods.
\<close>

theorem unsupported_method_route:
  assumes "route \<in> set router"
    and "GetPathTemplate route = Inr path" and "GetMethods route = Inr methods"
    and "method \<in> set methods"
    and "method \<notin> {''GET'', ''POST'', ''PUT'', ''DELETE''}"
  shows "\<lparr>Method = method, Path = path, HandlerName = extractHandlerName path method,
           Tags = extractTags path\<rparr> \<in> set (extractRoutes router) \<and>
         Paths (generatePaths_step
                  \<lparr>Method = method, Path = path,
                    HandlerName = extractHandlerName path method,
                    Tags = extractTags path\<rparr> spec) =
           AList.update path
             (case map_of (Paths spec) path of
                Some item \<Rightarrow> item
              | None \<Rightarrow> \<lparr>Get = None, Post = None, Put = None, Delete = None\<rparr>)
             (Paths spec) \<and>
         (\<exists>doc item. GenerateSwagger Map_ToLower router info = Inr doc \<and>
            map_of (Paths doc) path = Some item \<and>
            ((\<forall>r \<in> set (extractRoutes router). Path r = path \<longrightarrow>
                 Method r \<notin> {''GET'', ''POST'', ''PUT'', ''DELETE''}) \<longrightarrow>
             item = \<lparr>Get = None, Post = None, Put = None, Delete = None\<rparr>))"
proof -
  let ?emitted = "\<lparr>Method = method, Path = path,
                   HandlerName = extractHandlerName path method, Tags = extractTags path\<rparr>"
  let ?spec0 = "\<lparr>OpenAPI = ''3.0.0'', Info = info,
            Servers = [\<lparr>URL = ''http://'' @ Host info, Description = ''Development server''\<rparr>],
            Paths = [],
            Components = \<lparr>Schemas = [(''User'', User_schema), (''Response'', Response_schema),
                                     (''ErrorResponse'', ErrorResponse_schema)]\<rparr>\<rparr>"
  let ?doc = "fold generatePaths_step (extractRoutes router) ?spec0"
  have emitted: "?emitted \<in> set (extractRoutes router)"
    using assms(1) route_records_member [OF assms(2,3,4)]
    by (auto simp: extractRoutes_concat)
  have step: "Paths (generatePaths_step ?emitted spec) =
           AList.update path
             (case map_of (Paths spec) path of
                Some item \<Rightarrow> item
              | None \<Rightarrow> \<lparr>Get = None, Post = None, Put = None, Delete = None\<rparr>)
             (Paths spec)"
    using step_item_unsupported [of ?emitted spec] assms(5)
    by (simp add: generatePaths_step_Paths)
  from fold_generatePaths_step_present [OF emitted, of ?spec0]
  obtain item where item: "map_of (Paths ?doc) path = Some item"
    by auto
  have "item = \<lparr>Get = None, Post = None, Put = None, Delete = None\<rparr>"
    if "\<forall>r \<in> set (extractRoutes router). Path r = path \<longrightarrow>
          Method r \<notin> {''GET'', ''POST'', ''PUT'', ''DELETE''}"
  proof -
    have "path \<in> Path ` set (extractRoutes router)"
      using emitted by force
    with fold_generatePaths_step_unsupported [OF that, of ?spec0] item show ?thesis
      by simp
  qed
  with emitted step item show ?thesis
    by (simp add: GenerateSwagger_eq)
qed

text \<open>The amended C10 at the router with the single route \<open>PATCH /api/users/{id}\<close>.\<close>

theorem unsupported_method_route_witness:
  "\<lparr>Method = ''PATCH'', Path = ''/api/users/{id}'', HandlerName = ''PATCH_api_users_{id}'',
     Tags = [''Users'']\<rparr> \<in> set (extractRoutes patch_router) \<and>
   (\<forall>Map_ToLower. \<exists>doc.
      GenerateSwagger Map_ToLower patch_router default_info = Inr doc \<and>
      map_of (Paths doc) ''/api/users/{id}'' =
        Some \<lparr>Get = None, Post = None, Put = None, Delete = None\<rparr>)"
proof -
  let ?route = "\<lparr>GetPathTemplate = Inr ''/api/users/{id}'', GetMethods = Inr [''PATCH'']\<rparr>"
  have routes: "extractRoutes patch_router =
     [\<lparr>Method = ''PATCH'', Path = ''/api/users/{id}'', HandlerName = ''PATCH_api_users_{id}'',
       Tags = [''Users'']\<rparr>]"
    by (simp add: extractRoutes_def patch_router_def extractRoutes_walkFn_def
        extractHandlerName_def extractTags_def ReplaceAll_slash_def)
  show ?thesis
    using unsupported_method_route
      [of ?route patch_router "''/api/users/{id}''" "[''PATCH'']" "''PATCH''" blank_spec _
          default_info]
    by (simp add: routes) (simp add: patch_router_def)
qed

section \<open>The schema of a field of integer kind\<close>

text \<open>
  C2 says that every integer kind gives a schema of type \<open>integer\<close> and that the format
  \<open>int64\<close> is attached for the unsigned 64-bit kind only. The code attaches the format
  in the case of all five unsigned kinds: a \<open>uint8\<close> field has the format \<open>int64\<close>.
\<close>

theorem generateFieldSchema_uint8_has_format:
  "\<forall>Map_ToLower.
     generateFieldSchema Map_ToLower (reflect_Type reflect_Uint8 ''uint8'' [] None) =
       Inr (Schema ''integer'' ''int64'' [] [] None [] None None)"
  by (simp add: generateFieldSchema.simps)

text \<open>
  C2, amended: for each of the ten kinds \<open>int\<close>, \<open>int8\<close>, \<open>int16\<close>, \<open>int32\<close>, \<open>int64\<close>,
  \<open>uint\<close>, \<open>uint8\<close>, \<open>uint16\<close>, \<open>uint32\<close>, \<open>uint64\<close> the derivation returns a schema
  of type \<open>integer\<close>; its format is \<open>int64\<close> for each of the five unsigned kinds and
  empty for each of the five signed kinds.
\<close>

theorem generateFieldSchema_integer_kinds:
  assumes "Kind t \<in> {reflect_Int, reflect_Int8, reflect_Int16, reflect_Int32, reflect_Int64,
                      reflect_Uint, reflect_Uint8, reflect_Uint16, reflect_Uint32,
                      reflect_Uint64}"
  shows "\<exists>s. generateFieldSchema Map_ToLower t = Inr s \<and> Type s = ''integer'' \<and>
             Format s = (if Kind t \<in> {reflect_Uint, reflect_Uint8, reflect_Uint16,
                                       reflect_Uint32, reflect_Uint64}
                         then ''int64'' else [])"
  using assms by (auto simp: generateFieldSchema.simps Schema_of_Type_def Let_def)

text \<open>The amended C2 at the types \<open>uint16\<close> and \<open>int32\<close>.\<close>

theorem generateFieldSchema_integer_kinds_witness:
  "\<forall>Map_ToLower.
     (\<exists>s. generateFieldSchema Map_ToLower (reflect_Type reflect_Uint16 ''uint16'' [] None)
            = Inr s \<and>
          Type s = ''integer'' \<and> Format s = ''int64'') \<and>
     (\<exists>s. generateFieldSchema Map_ToLower (reflect_Type reflect_Int32 ''int32'' [] None)
            = Inr s \<and>
          Type s = ''integer'' \<and> Format s = [])"
  using generateFieldSchema_integer_kinds [of "reflect_Type reflect_Uint16 ''uint16'' [] None"]
    generateFieldSchema_integer_kinds [of "reflect_Type reflect_Int32 ''int32'' [] None"]
  by simp

section \<open>The example of a field\<close>

text \<open>
  C3 says that, for a name that is not special, every integer kind gives the example 1.
  The code gives it for \<open>int\<close>, \<open>int64\<close>, \<open>uint\<close> and \<open>uint64\<close> only: an \<open>int32\<close> field
  named \<open>count\<close> has no example.
\<close>

theorem generateExample_int32_absent:
  "\<forall>Map_ToLower.
     generateExample Map_ToLower ''count'' (reflect_Type reflect_Int32 ''int32'' [] None) = None"
  by (simp add: generateExample_def ToLower_def lower_byte_def)

text \<open>
  C3, amended: for every name whose lower-case form, as \<open>strings.ToLower\<close> returns it,
  is none of \<open>id\<close>, \<open>name\<close>, \<open>email\<close>, \<open>created_at\<close>, \<open>updated_at\<close>, whatever the library
  returns for names outside ASCII, the example is decided by the kind: \<open>"example string"\<close>
  for a string, 1 for \<open>int\<close>, \<open>int64\<close>, \<open>uint\<close> and \<open>uint64\<close>, \<open>true\<close> for a boolean, and
  no example for every other kind, the other integer widths included.
\<close>

theorem generateExample_fallback_by_kind:
  assumes "ToLower Map_ToLower fieldName \<notin> set special_names"
  shows "generateExample Map_ToLower fieldName t =
           (if Kind t = reflect_String then Some (string_value ''example string'')
            else if Kind t \<in> {reflect_Int, reflect_Int64, reflect_Uint, reflect_Uint64}
              then Some (int_value 1)
            else if Kind t = reflect_Bool then Some (bool_value True)
            else None)"
  using assms by (simp add: generateExample_def special_names_def Let_def)

text \<open>The amended C3 at a \<open>uint64\<close> field named \<open>Count\<close>.\<close>

theorem generateExample_fallback_by_kind_witness:
  "\<forall>Map_ToLower.
     ToLower Map_ToLower ''Count'' \<notin> set special_names \<and>
     generateExample Map_ToLower ''Count'' (reflect_Type reflect_Uint64 ''uint64'' [] None) =
       Some (int_value 1)"
proof
  fix Map_ToLower
  have h: "ToLower Map_ToLower ''Count'' \<notin> set special_names"
    by (simp add: ToLower_def lower_byte_def special_names_def)
  show "ToLower Map_ToLower ''Count'' \<notin> set special_names \<and>
     generateExample Map_ToLower ''Count'' (reflect_Type reflect_Uint64 ''uint64'' [] None) =
       Some (int_value 1)"
    using h generateExample_fallback_by_kind
            [OF h, of "reflect_Type reflect_Uint64 ''uint64'' [] None"]
    by simp
qed

section \<open>The operations of two user routes\<close>

text \<open>
  C4: the operation of the route \<open>GET /api/users/{id}\<close> has exactly one parameter,
  named \<open>id\<close>, in the path, required, with a schema of type \<open>integer\<close>, and its
  responses have exactly the keys 200, 404, 400 and 500.
\<close>

theorem generateOperation_get_user_by_id:
  "Parameters (generateOperation \<lparr>Method = ''GET'', Path = ''/api/users/{id}'',
                                   HandlerName = h, Tags = tags\<rparr>)
     = [\<lparr>Name = ''id'', In = ''path'', Description = ''Resource ID'', Required = True,
         Parameter_Schema = Schema ''integer'' [] [] [] None [] None None\<rparr>]
   \<and> set (map fst (Responses (generateOperation
             \<lparr>Method = ''GET'', Path = ''/api/users/{id}'', HandlerName = h, Tags = tags\<rparr>)))
     = {''200'', ''404'', ''400'', ''500''}
   \<and> distinct (map fst (Responses (generateOperation
             \<lparr>Method = ''GET'', Path = ''/api/users/{id}'', HandlerName = h, Tags = tags\<rparr>)))"
  by (simp add: operation_defs)

text \<open>
  C5: the operation of the route \<open>POST /api/users\<close> has responses with exactly the keys
  201, 400 and 500, and a request body that is present and required and whose JSON
  schema is an object with the string properties \<open>name\<close> and \<open>email\<close>, both required.
\<close>

theorem generateOperation_create_user:
  "RequestBody (generateOperation \<lparr>Method = ''POST'', Path = ''/api/users'',
                                    HandlerName = h, Tags = tags\<rparr>)
     = Some \<lparr>RequestBody.Description = ''User data'', Required = True,
         Content = [(''application/json'', \<lparr>MediaType_Schema =
            Schema ''object'' []
              [(''name'',
                  Schema ''string'' [] [] [] None [] None (Some (string_value ''John Doe''))),
               (''email'',
                  Schema ''string'' [] [] [] None [] None
                    (Some (string_value ''john@example.com'')))]
              [''name'', ''email''] None [] None None\<rparr>)]\<rparr>
   \<and> set (map fst (Responses (generateOperation
             \<lparr>Method = ''POST'', Path = ''/api/users'', HandlerName = h, Tags = tags\<rparr>)))
     = {''201'', ''400'', ''500''}
   \<and> distinct (map fst (Responses (generateOperation
             \<lparr>Method = ''POST'', Path = ''/api/users'', HandlerName = h, Tags = tags\<rparr>)))"
  by (simp add: operation_defs)

end
